theory Spec2Isabelle
  imports Complex_Main "HOL-Library.Product_Lexorder"
begin

section \<open>Even Crop: the cycle timing scheduler (brain/scheduler.py)\<close>

text \<open>
  Python's unbounded integers are \<open>int\<close>. Python's floats (milliseconds per millilitre,
  press timestamps in seconds) are idealised as \<open>real\<close>: products and quotients are
  exact, so the rounding error of IEEE doubles is not part of this model.
  The \<open>Literal[...]\<close> string types of the source are datatypes.
\<close>

datatype Pattern = Diamond | Diagonal | Line

datatype Group = GroupA | GroupB

datatype Mode = Inherit | Flow | Timed

text \<open>The dataclass \<open>UnitState\<close>. The fields \<open>id\<close> and \<open>group\<close> carry the suffix
  \<open>_u\<close>, since both names are constants of HOL.\<close>

record UnitState =
  id_u :: int
  enabled :: bool
  group_u :: Group
  momentary :: string
  offset :: int
  perDelayMs :: int
  mode :: Mode
  pulsesPerCycle :: int
  msPerMl :: real

text \<open>The dataclass \<open>MomentaryCfg\<close> (fields \<open>enabled\<close>, \<open>offset\<close>).\<close>

record MomentaryCfg =
  enabled_m :: bool
  offset_m :: int

text \<open>The dataclass \<open>AutoDelay\<close> (field \<open>enabled\<close> suffixed).\<close>

record AutoDelay =
  enabled_ad :: bool
  manualMs :: int
  geomLeadMs :: int
  currentMs :: int

text \<open>The dataclass \<open>BrainStateView\<close>; its field \<open>momentary\<close> is a dictionary from
  switch names to their configuration.\<close>

record BrainStateView =
  targetMl :: int
  deliveryMode :: Mode
  autoDelay :: AutoDelay
  momentary_st :: "string \<rightharpoonup> MomentaryCfg"
  units :: "UnitState list"

text \<open>The mode dictionary of a schedule entry: \<open>{"mode":"timed", "ms_per_ml", "target_ml"}\<close>
  or \<open>{"mode":"flow", "pulses", "target_ml"}\<close>.\<close>

datatype ModeInfo = TimedInfo real int | FlowInfo int int

text \<open>A schedule entry \<open>(unit_id, start_ms, duration_ms, mode_dict)\<close>.\<close>

type_synonym Entry = "int \<times> int \<times> int option \<times> ModeInfo"

text \<open>The \<open>Scheduler\<close> object: \<open>state_fn\<close> is the snapshot that the supplier returns
  during one planning pass, \<open>tram_off\<close> the tramline predicate.\<close>

record Scheduler =
  state_fn :: BrainStateView
  tram_off :: "int \<Rightarrow> bool"
  pattern :: Pattern

subsection \<open>Python's numeric conversions\<close>

text \<open>\<open>round(x)\<close> of a float: to the nearest integer, a tie to the even one.\<close>

definition py_round :: "real \<Rightarrow> int" where
  "py_round x =
     (let f = \<lfloor>x\<rfloor>; d = x - of_int f
      in if d < 1/2 then f
         else if 1/2 < d then f + 1
         else if even f then f else f + 1)"


subsection \<open>Helpers\<close>

text \<open>\<open>_momentary_ms\<close>: \<open>m.get(name or "", None)\<close>, 0 when the lookup finds nothing
  (a \<open>MomentaryCfg\<close> object is always truthy), else the clamped percentage times 10.
  With integer offsets no exception is raised inside the \<open>try\<close>.\<close>

definition momentary_ms :: "(string \<rightharpoonup> MomentaryCfg) \<Rightarrow> string \<Rightarrow> int" where
  "momentary_ms m name =
     (case m (if name = [] then [] else name) of
        None \<Rightarrow> 0
      | Some cfg \<Rightarrow> (let pct = max 0 (min 100 (offset_m cfg)) in pct * 10))"

text \<open>\<open>_pattern_base_ms\<close>, with its parameter \<open>diagonal_step_ms\<close>.\<close>

definition pattern_base_ms :: "Pattern \<Rightarrow> UnitState \<Rightarrow> AutoDelay \<Rightarrow> int \<Rightarrow> int" where
  "pattern_base_ms p unit auto diagonal_step_ms =
     (if p = Diamond then (if group_u unit = GroupA then 0 else max 0 (currentMs auto))
      else if p = Diagonal then max 0 ((id_u unit - 1) * diagonal_step_ms)
      else 0)"

text \<open>\<open>_inherit_mode\<close>.\<close>

definition inherit_mode :: "Mode \<Rightarrow> Mode \<Rightarrow> Mode" where
  "inherit_mode global_mode unit_mode =
     (if unit_mode = Flow \<or> unit_mode = Timed then unit_mode else global_mode)"

subsection \<open>The scheduler\<close>

text \<open>The per-unit delay as \<open>_unit_fire_ms\<close> clamps it: the value of the local variable
  \<open>per\<close> when the sum is formed.\<close>

definition clamped_per :: "Pattern \<Rightarrow> UnitState \<Rightarrow> BrainStateView \<Rightarrow> int" where
  "clamped_per p unit st =
     (let per = perDelayMs unit;
          per = (if p = Diamond \<and> group_u unit = GroupB
                 then (let min_neg = - max 0 (currentMs (autoDelay st))
                       in if per < min_neg then min_neg else per)
                 else per);
          per = (if p = Diamond \<and> group_u unit = GroupA
                 then (if per < 0 then 0 else per)
                 else per)
      in per)"

text \<open>\<open>Scheduler._unit_fire_ms\<close>; the diagonal step is the default 80.\<close>

definition unit_fire_ms :: "Scheduler \<Rightarrow> int \<Rightarrow> UnitState \<Rightarrow> BrainStateView \<Rightarrow> int" where
  "unit_fire_ms self base_ms unit st =
     (let base = pattern_base_ms (pattern self) unit (autoDelay st) 80;
          mom = momentary_ms (momentary_st st) (momentary unit);
          per = clamped_per (pattern self) unit st
      in base_ms + base + mom + per)"

text \<open>\<open>Scheduler._duration_and_mode\<close>. \<open>x or d\<close> takes the default \<open>d\<close> when \<open>x\<close> is zero.\<close>

definition duration_and_mode :: "UnitState \<Rightarrow> BrainStateView \<Rightarrow> int option \<times> ModeInfo" where
  "duration_and_mode unit st =
     (let target = max 1 (targetMl st);
          md = inherit_mode (deliveryMode st) (mode unit)
      in if md = Timed
         then (let ms_per_ml = max (1/10) (if msPerMl unit = 0 then 5 else msPerMl unit);
                   dur = py_round (of_int target * ms_per_ml)
               in (Some dur, TimedInfo ms_per_ml target))
         else (let pulses = max 1 (if pulsesPerCycle unit = 0 then 100 else pulsesPerCycle unit)
               in (None, FlowInfo pulses target)))"

text \<open>The loop of \<open>plan_cycle\<close> over \<open>st.units\<close>, appending to \<open>out\<close>. The test on
  \<open>pressed_m\<close> guards a \<open>pass\<close>: both of its branches go on with the same list.\<close>

fun plan_loop ::
  "Scheduler \<Rightarrow> BrainStateView \<Rightarrow> int \<Rightarrow> string option \<Rightarrow> UnitState list \<Rightarrow> Entry list \<Rightarrow> Entry list"
where
  "plan_loop self st t0 pressed_m [] out = out"
| "plan_loop self st t0 pressed_m (u # us) out =
     (if \<not> enabled u then plan_loop self st t0 pressed_m us out
      else if tram_off self (id_u u) then plan_loop self st t0 pressed_m us out
      else
        (let out = (if (case pressed_m of None \<Rightarrow> False | Some pm \<Rightarrow> pm \<noteq> [] \<and> momentary u \<noteq> [] \<and> momentary u \<noteq> pm)
                    then out else out);
             start_ms = unit_fire_ms self t0 u st;
             (duration_ms, mode_info) = duration_and_mode u st
         in plan_loop self st t0 pressed_m us (out @ [(id_u u, start_ms, duration_ms, mode_info)])))"

text \<open>The sort key \<open>lambda e: (e[1], e[0])\<close>; pairs of integers are ordered
  lexicographically, as Python's tuples are.\<close>

definition sort_key_entry :: "Entry \<Rightarrow> int \<times> int" where
  "sort_key_entry e = (fst (snd e), fst e)"

text \<open>\<open>Scheduler.plan_cycle\<close>. \<open>clock_ms\<close> is what \<open>_now_ms()\<close> would return; it is read
  only when \<open>now_ms\<close> is \<open>None\<close>. Python's sort is stable, as \<open>sort_key\<close> is.\<close>

definition plan_cycle :: "Scheduler \<Rightarrow> int \<Rightarrow> int option \<Rightarrow> string option \<Rightarrow> Entry list" where
  "plan_cycle self clock_ms now_ms pressed_m =
     (let st = state_fn self;
          t0 = (case now_ms of Some t \<Rightarrow> t | None \<Rightarrow> clock_ms);
          out = plan_loop self st t0 pressed_m (units st) []
      in sort_key sort_key_entry out)"

text \<open>Two notions for stating properties of a plan: a unit is eligible when the loop
  skips neither of its two \<open>continue\<close> tests, and \<open>entry_of\<close> is the tuple the loop
  appends for it.\<close>

definition eligible :: "Scheduler \<Rightarrow> UnitState \<Rightarrow> bool" where
  "eligible self u = (enabled u \<and> \<not> tram_off self (id_u u))"

definition entry_of :: "Scheduler \<Rightarrow> BrainStateView \<Rightarrow> int \<Rightarrow> UnitState \<Rightarrow> Entry" where
  "entry_of self st t0 u =
     (id_u u, unit_fire_ms self t0 u st, fst (duration_and_mode u st), snd (duration_and_mode u st))"

subsection \<open>The specification's formulas, for comparison with the code\<close>


text \<open>The flow target in the specification's words:
  \<open>round(target_ml \<times> pulses_per_liter / 1000)\<close>, capped at the pulses per cycle.\<close>

definition spec_target_pulses :: "int \<Rightarrow> int \<Rightarrow> int \<Rightarrow> int" where
  "spec_target_pulses target_ml pulses_per_liter pulses_per_cycle =
     min (py_round (of_int target_ml * of_int pulses_per_liter / 1000)) pulses_per_cycle"

section \<open>The delay estimator and the press history (brain/server.py)\<close>

text \<open>Press timestamps are \<open>time.time()\<close> values, in seconds. The list comprehension of
  \<open>_auto_delay_loop\<close> reads the clock once per element; the model reads it once per
  tick (\<open>now\<close>).\<close>

definition recent_presses :: "real list \<Rightarrow> real \<Rightarrow> real list" where
  "recent_presses pressHistory now = filter (\<lambda>p. now - p < 15) pressHistory"





text \<open>The recording of a press in \<open>cycle_loop\<close>: append, then keep the slice
  \<open>[-20:]\<close>.\<close>

definition record_press :: "real list \<Rightarrow> real \<Rightarrow> real list" where
  "record_press pressHistory now =
     (let h = pressHistory @ [now] in drop (length h - 20) h)"

section \<open>The timed drive of a unit output (brain/io_gpio.py)\<close>

datatype Level = LOW | HIGH

text \<open>How an awaited \<open>asyncio.sleep\<close> ends: the time elapses, the task is cancelled
  during the wait, or another exception is thrown into it.\<close>

datatype PyExc = CancelledError | OtherException

datatype SleepOutcome = Elapsed | Raised PyExc

text \<open>The part of \<open>RPiGPIO\<close> that the drive touches: the unit-to-pin mapping, the level
  of every pin, and the history of the calls of \<open>RGPIO.output\<close>.\<close>

record RPiGPIO =
  mapping_units :: "int \<rightharpoonup> int"
  pin_level :: "int \<Rightarrow> Level"
  output_calls :: "(int \<times> Level) list"

definition RGPIO_output :: "int \<Rightarrow> Level \<Rightarrow> RPiGPIO \<Rightarrow> RPiGPIO" where
  "RGPIO_output pin lvl g =
     g\<lparr>pin_level := (pin_level g)(pin := lvl), output_calls := output_calls g @ [(pin, lvl)]\<rparr>"

text \<open>\<open>await asyncio.sleep(...)\<close>: the hardware state is untouched; the result is normal
  or the exception.\<close>

definition await_sleep :: "SleepOutcome \<Rightarrow> RPiGPIO \<Rightarrow> (PyExc + unit) \<times> RPiGPIO" where
  "await_sleep oc g = (case oc of Elapsed \<Rightarrow> (Inr (), g) | Raised e \<Rightarrow> (Inl e, g))"

text \<open>\<open>try: body finally: fin\<close>: the final block runs whatever the body's result, which
  is then passed on.\<close>

definition try_finally ::
  "(RPiGPIO \<Rightarrow> (PyExc + unit) \<times> RPiGPIO) \<Rightarrow> (RPiGPIO \<Rightarrow> RPiGPIO) \<Rightarrow> RPiGPIO \<Rightarrow> (PyExc + unit) \<times> RPiGPIO"
where
  "try_finally body fin g = (let (r, g1) = body g in (r, fin g1))"

text \<open>\<open>RPiGPIO.open_unit_for\<close>; \<open>oc\<close> is how the awaited sleep ends.\<close>

definition open_unit_for :: "RPiGPIO \<Rightarrow> int \<Rightarrow> int \<Rightarrow> SleepOutcome \<Rightarrow> (PyExc + unit) \<times> RPiGPIO" where
  "open_unit_for self unit_id ms oc =
     (case mapping_units self unit_id of
        None \<Rightarrow> await_sleep oc self
      | Some pin \<Rightarrow>
          (let g = RGPIO_output pin HIGH self
           in try_finally (await_sleep oc) (RGPIO_output pin LOW) g))"

section \<open>Concrete inputs\<close>

definition unit1 :: UnitState where
  "unit1 = \<lparr>id_u = 1, enabled = True, group_u = GroupA, momentary = ''M1'', offset = 0,
            perDelayMs = -30, mode = Inherit, pulsesPerCycle = 100, msPerMl = 5\<rparr>"

definition unit2 :: UnitState where
  "unit2 = \<lparr>id_u = 2, enabled = True, group_u = GroupB, momentary = ''M2'', offset = 0,
            perDelayMs = -700, mode = Timed, pulsesPerCycle = 100, msPerMl = 5\<rparr>"

definition unit3 :: UnitState where
  "unit3 = \<lparr>id_u = 3, enabled = False, group_u = GroupA, momentary = ''M1'', offset = 0,
            perDelayMs = 0, mode = Inherit, pulsesPerCycle = 100, msPerMl = 5\<rparr>"

definition unit4 :: UnitState where
  "unit4 = \<lparr>id_u = 4, enabled = True, group_u = GroupB, momentary = ''None'', offset = 0,
            perDelayMs = 0, mode = Flow, pulsesPerCycle = 100, msPerMl = 5\<rparr>"

definition demo_auto :: AutoDelay where
  "demo_auto = \<lparr>enabled_ad = True, manualMs = 500, geomLeadMs = 0, currentMs = 500\<rparr>"

definition demo_state :: BrainStateView where
  "demo_state = \<lparr>targetMl = 100, deliveryMode = Flow, autoDelay = demo_auto,
      momentary_st = [''M1'' \<mapsto> \<lparr>enabled_m = True, offset_m = 80\<rparr>,
                      ''M2'' \<mapsto> \<lparr>enabled_m = False, offset_m = 50\<rparr>],
      units = [unit1, unit2, unit3, unit4]\<rparr>"

definition demo_sched :: Scheduler where
  "demo_sched = \<lparr>state_fn = demo_state, tram_off = (\<lambda>i. i = 4), pattern = Diamond\<rparr>"

definition unit5 :: UnitState where
  "unit5 = \<lparr>id_u = 5, enabled = True, group_u = GroupA, momentary = ''M1'', offset = 0,
            perDelayMs = 0, mode = Inherit, pulsesPerCycle = 100, msPerMl = 5\<rparr>"

definition tie_sched :: Scheduler where
  "tie_sched = demo_sched\<lparr>state_fn := demo_state\<lparr>units := [unit5, unit3\<lparr>enabled := True\<rparr>]\<rparr>\<rparr>"

definition demo_gpio :: RPiGPIO where
  "demo_gpio = \<lparr>mapping_units = [1 \<mapsto> 12], pin_level = (\<lambda>_. LOW), output_calls = []\<rparr>"

lemmas demo_defs =
  unit1_def unit2_def unit3_def unit4_def unit5_def demo_auto_def demo_state_def demo_sched_def
  tie_sched_def

lemmas scheduler_defs =
  unit_fire_ms_def duration_and_mode_def pattern_base_ms_def momentary_ms_def clamped_per_def
  inherit_mode_def py_round_def sort_key_entry_def eligible_def entry_of_def Let_def

section \<open>The planner\<close>

subsection \<open>The loop as a filter and a map\<close>

lemma plan_loop_eq:
  "plan_loop self st t0 pm us out = out @ map (entry_of self st t0) (filter (eligible self) us)"
  by (induction us arbitrary: out) (simp_all add: eligible_def entry_of_def split: prod.splits)

lemma plan_cycle_eq:
  "plan_cycle self clk now pm =
     sort_key sort_key_entry
       (map (entry_of self (state_fn self) (case now of Some t \<Rightarrow> t | None \<Rightarrow> clk))
            (filter (eligible self) (units (state_fn self))))"
  by (simp add: plan_cycle_def plan_loop_eq Let_def)

lemma set_plan_cycle:
  "set (plan_cycle self clk now pm) =
     entry_of self (state_fn self) (case now of Some t \<Rightarrow> t | None \<Rightarrow> clk) `
       {u \<in> set (units (state_fn self)). eligible self u}"
  by (simp add: plan_cycle_eq)

lemma entry_in_plan:
  "u \<in> set (units (state_fn self)) \<Longrightarrow> eligible self u \<Longrightarrow>
   entry_of self (state_fn self) (case now of Some t \<Rightarrow> t | None \<Rightarrow> clk) u
     \<in> set (plan_cycle self clk now pm)"
  unfolding set_plan_cycle by blast


lemma duration_and_mode_flow:
  "inherit_mode (deliveryMode st) (mode u) \<noteq> Timed \<Longrightarrow>
   duration_and_mode u st =
     (None, FlowInfo (max 1 (if pulsesPerCycle u = 0 then 100 else pulsesPerCycle u)) (max 1 (targetMl st)))"
  by (simp add: duration_and_mode_def Let_def)

text \<open>The plan of the demonstration scheduler for a press at 1000 ms: unit 3 is disabled,
  unit 4 is tramlined off, and unit 2 (group B, delay \<open>-700\<close> clamped to \<open>-500\<close>) comes
  before unit 1.\<close>

lemma demo_plan:
  "plan_cycle demo_sched 0 (Some 1000) (Some ''M1'') =
     [(2, 1500, Some 500, TimedInfo 5 100), (1, 1800, None, FlowInfo 100 100)]"
  by (simp add: plan_cycle_def demo_defs scheduler_defs)

lemma tie_plan:
  "plan_cycle tie_sched 0 (Some 1000) None =
     [(3, 1800, None, FlowInfo 100 100), (5, 1800, None, FlowInfo 100 100)]"
  by (simp add: plan_cycle_def demo_defs scheduler_defs)


subsection \<open>The per-unit delay clamp\<close>

text \<open>
  Claim C1. The start time is the sum of the press time, the pattern's base, the momentary
  offset and the clamped per-unit delay. In the diamond pattern the delay of a group-A unit
  is floored at 0, and that of a group-B unit at \<open>- currentMs\<close> for every snapshot whose
  \<open>currentMs\<close> is not negative, as the data model has it and as the estimator stores
  it; the code's floor is \<open>- max 0 currentMs\<close>, which is the same there. In the other
  patterns the delay is taken as it is.
\<close>

theorem diamond_per_delay_clamp:
  "unit_fire_ms self t0 u st =
     t0 + pattern_base_ms (pattern self) u (autoDelay st) 80
        + momentary_ms (momentary_st st) (momentary u)
        + clamped_per (pattern self) u st \<and>
   (pattern self = Diamond \<and> group_u u = GroupA \<longrightarrow>
      clamped_per (pattern self) u st = max 0 (perDelayMs u) \<and>
      0 \<le> clamped_per (pattern self) u st) \<and>
   (pattern self = Diamond \<and> group_u u = GroupB \<longrightarrow>
      clamped_per (pattern self) u st = max (- max 0 (currentMs (autoDelay st))) (perDelayMs u) \<and>
      - max 0 (currentMs (autoDelay st)) \<le> clamped_per (pattern self) u st \<and>
      (0 \<le> currentMs (autoDelay st) \<longrightarrow>
         clamped_per (pattern self) u st = max (- currentMs (autoDelay st)) (perDelayMs u) \<and>
         - currentMs (autoDelay st) \<le> clamped_per (pattern self) u st)) \<and>
   (pattern self \<noteq> Diamond \<longrightarrow> clamped_per (pattern self) u st = perDelayMs u)"
  by (cases "group_u u") (auto simp: unit_fire_ms_def clamped_per_def Let_def)

text \<open>The clamp at work: unit 2 (group B, delay \<open>-700\<close>, \<open>currentMs = 500\<close>) is held at
  \<open>-500\<close>, unit 1 (group A, delay \<open>-30\<close>) at 0, and the line pattern leaves \<open>-700\<close>.\<close>

theorem diamond_per_delay_clamp_witness:
  "pattern demo_sched = Diamond \<and> group_u unit2 = GroupB \<and> group_u unit1 = GroupA \<and>
   0 \<le> currentMs (autoDelay demo_state) \<and>
   clamped_per (pattern demo_sched) unit2 demo_state = -500 \<and>
   clamped_per (pattern demo_sched) unit1 demo_state = 0 \<and>
   pattern (demo_sched\<lparr>pattern := Line\<rparr>) \<noteq> Diamond \<and>
   clamped_per (pattern (demo_sched\<lparr>pattern := Line\<rparr>)) unit2 demo_state = -700 \<and>
   unit_fire_ms demo_sched 1000 unit2 demo_state = 1500"
  using diamond_per_delay_clamp [of demo_sched 1000 unit2 demo_state]
        diamond_per_delay_clamp [of demo_sched 1000 unit1 demo_state]
        diamond_per_delay_clamp [of "demo_sched\<lparr>pattern := Line\<rparr>" 1000 unit2 demo_state]
  by (simp add: demo_defs pattern_base_ms_def momentary_ms_def)

subsection \<open>Order and content of the plan\<close>

text \<open>
  Claim C2. The list that \<open>plan_cycle\<close> returns is ordered by start time, and entries of
  equal start time by unit id; and every entry of it is the entry of a unit of the
  snapshot that is enabled and whose id is not tramlined off, so that no entry carries a
  tramlined id.
\<close>

theorem plan_cycle_sorted_and_filtered:
  "sorted_wrt (\<lambda>e e'. fst (snd e) < fst (snd e') \<or>
                        (fst (snd e) = fst (snd e') \<and> fst e \<le> fst e'))
     (plan_cycle self clk now pm) \<and>
   (\<forall>e \<in> set (plan_cycle self clk now pm).
      \<not> tram_off self (fst e) \<and>
      (\<exists>u \<in> set (units (state_fn self)).
         enabled u \<and> \<not> tram_off self (id_u u) \<and>
         e = entry_of self (state_fn self) (case now of Some t \<Rightarrow> t | None \<Rightarrow> clk) u))"
proof (intro conjI ballI)
  have "sorted (map sort_key_entry (plan_cycle self clk now pm))"
    by (simp add: plan_cycle_def Let_def)
  then have "sorted_wrt (\<lambda>e e'. sort_key_entry e \<le> sort_key_entry e') (plan_cycle self clk now pm)"
    by (simp add: sorted_map)
  then show "sorted_wrt (\<lambda>e e'. fst (snd e) < fst (snd e') \<or>
                        (fst (snd e) = fst (snd e') \<and> fst e \<le> fst e'))
     (plan_cycle self clk now pm)"
    by (rule sorted_wrt_mono_rel [rotated]) (auto simp: sort_key_entry_def less_eq_prod_def)
next
  fix e assume "e \<in> set (plan_cycle self clk now pm)"
  then obtain u where u: "u \<in> set (units (state_fn self))" "eligible self u"
    and e: "e = entry_of self (state_fn self) (case now of Some t \<Rightarrow> t | None \<Rightarrow> clk) u"
    unfolding set_plan_cycle by blast
  from u e show "\<not> tram_off self (fst e)"
    by (simp add: eligible_def entry_of_def)
  from u e show "\<exists>u \<in> set (units (state_fn self)).
         enabled u \<and> \<not> tram_off self (id_u u) \<and>
         e = entry_of self (state_fn self) (case now of Some t \<Rightarrow> t | None \<Rightarrow> clk) u"
    unfolding eligible_def by blast
qed

text \<open>Two plans. In the first the later unit starts earlier and comes first, and the
  disabled unit 3 and the tramlined unit 4 are absent. In the second the units 5 and 3, in
  this order in the snapshot, start together at 1800 ms, and unit 3 comes first.\<close>

theorem plan_cycle_sorted_and_filtered_witness:
  "plan_cycle demo_sched 0 (Some 1000) (Some ''M1'') =
     [(2, 1500, Some 500, TimedInfo 5 100), (1, 1800, None, FlowInfo 100 100)] \<and>
   units (state_fn tie_sched) = [unit5, unit3\<lparr>enabled := True\<rparr>] \<and>
   id_u unit5 = 5 \<and> id_u (unit3\<lparr>enabled := True\<rparr>) = 3 \<and>
   plan_cycle tie_sched 0 (Some 1000) None =
     [(3, 1800, None, FlowInfo 100 100), (5, 1800, None, FlowInfo 100 100)] \<and>
   \<not> tram_off demo_sched 2 \<and> \<not> tram_off demo_sched 1 \<and> tram_off demo_sched 4 \<and>
   enabled unit1 \<and> enabled unit2 \<and> \<not> enabled unit3 \<and> enabled unit4"
  using plan_cycle_sorted_and_filtered [of demo_sched 0 "Some 1000" "Some ''M1''"]
        plan_cycle_sorted_and_filtered [of tie_sched 0 "Some 1000" None]
        demo_plan tie_plan
  by (simp add: demo_defs)

subsection \<open>Durations and mode descriptors\<close>




text \<open>
  Claim C4, as amended. For every enabled, non-tramlined unit of the snapshot whose
  effective mode is flow, the plan holds its entry, with no duration and a descriptor
  that carries the unit's configured pulses per cycle (100 when that is 0, and floored at
  1) and the target floored at 1. No K-factor enters: \<open>UnitState\<close> has no such field.
\<close>

theorem flow_descriptor_planned:
  assumes "u \<in> set (units (state_fn self))" and "enabled u" and "\<not> tram_off self (id_u u)"
    and "inherit_mode (deliveryMode (state_fn self)) (mode u) = Flow"
  shows "(id_u u,
          unit_fire_ms self (case now of Some t \<Rightarrow> t | None \<Rightarrow> clk) u (state_fn self),
          None,
          FlowInfo (max 1 (if pulsesPerCycle u = 0 then 100 else pulsesPerCycle u))
                   (max 1 (targetMl (state_fn self))))
           \<in> set (plan_cycle self clk now pm)"
proof -
  have el: "eligible self u"
    using assms(2,3) by (simp add: eligible_def)
  have nt: "inherit_mode (deliveryMode (state_fn self)) (mode u) \<noteq> Timed"
    using assms(4) by simp
  from entry_in_plan [OF assms(1) el, where now = now and clk = clk and pm = pm]
  show ?thesis
    by (simp add: entry_of_def duration_and_mode_flow [OF nt])
qed

text \<open>Unit 1 inherits the global flow mode: its entry has no duration and carries its
  100 pulses per cycle.\<close>

theorem flow_descriptor_planned_witness:
  "unit1 \<in> set (units (state_fn demo_sched)) \<and> enabled unit1 \<and>
   \<not> tram_off demo_sched (id_u unit1) \<and>
   inherit_mode (deliveryMode (state_fn demo_sched)) (mode unit1) = Flow \<and>
   (1, 1800, None, FlowInfo 100 100) \<in> set (plan_cycle demo_sched 0 (Some 1000) None)"
  using flow_descriptor_planned
          [where u = unit1 and self = demo_sched and now = "Some 1000" and clk = 0 and pm = None]
  by (simp add: demo_defs scheduler_defs)

text \<open>For a target of 100 ml and 100 pulses per cycle the descriptor carries 100 pulses;
  the specification's formula with a K-factor of 450 pulses per litre gives 45.\<close>

theorem flow_target_pulses_counterexample:
  "inherit_mode (deliveryMode demo_state) (mode unit1) = Flow \<and>
   duration_and_mode unit1 demo_state = (None, FlowInfo 100 100) \<and>
   spec_target_pulses (targetMl demo_state) 450 (pulsesPerCycle unit1) = 45"
  by (simp add: demo_defs duration_and_mode_def inherit_mode_def spec_target_pulses_def
      py_round_def Let_def)

subsection \<open>The momentary offset\<close>

text \<open>
  Claim C5, as amended. The momentary component of the start time is 0 when the unit's
  switch name is not a key of the snapshot's momentary dictionary, and otherwise the
  switch's offset percentage clamped to 0..100, times 10 ms, whether the switch is
  enabled or not; it lies between 0 and 1000 ms.
\<close>

theorem momentary_offset_component:
  "unit_fire_ms self t0 u st =
     t0 + pattern_base_ms (pattern self) u (autoDelay st) 80
        + momentary_ms (momentary_st st) (momentary u)
        + clamped_per (pattern self) u st \<and>
   (momentary_st st (momentary u) = None \<longrightarrow>
      momentary_ms (momentary_st st) (momentary u) = 0) \<and>
   (\<forall>cfg. momentary_st st (momentary u) = Some cfg \<longrightarrow>
      momentary_ms (momentary_st st) (momentary u) = max 0 (min 100 (offset_m cfg)) * 10) \<and>
   0 \<le> momentary_ms (momentary_st st) (momentary u) \<and>
   momentary_ms (momentary_st st) (momentary u) \<le> 1000"
  by (auto simp: unit_fire_ms_def momentary_ms_def Let_def split: option.splits)

text \<open>Unit 4 is bound to no switch and gets 0 ms; unit 1 is bound to M1 at 80 percent and
  gets 800 ms.\<close>

theorem momentary_offset_component_witness:
  "momentary_st demo_state (momentary unit4) = None \<and>
   momentary_ms (momentary_st demo_state) (momentary unit4) = 0 \<and>
   momentary_st demo_state (momentary unit1) = Some \<lparr>enabled_m = True, offset_m = 80\<rparr> \<and>
   momentary_ms (momentary_st demo_state) (momentary unit1) = 800 \<and>
   unit_fire_ms demo_sched 1000 unit1 demo_state = 1800"
  using momentary_offset_component [of demo_sched 1000 unit4 demo_state]
        momentary_offset_component [of demo_sched 1000 unit1 demo_state]
  by (simp add: demo_defs pattern_base_ms_def clamped_per_def)

text \<open>Unit 2 is bound to M2, which is disabled and set to 50 percent: its momentary
  component is 500 ms, not 0.\<close>

theorem momentary_disabled_switch_counterexample:
  "momentary_st demo_state (momentary unit2) = Some \<lparr>enabled_m = False, offset_m = 50\<rparr> \<and>
   momentary_ms (momentary_st demo_state) (momentary unit2) = 500"
  by (simp add: demo_defs momentary_ms_def)

subsection \<open>The pressed switch\<close>

text \<open>
  Claim C10. The plan does not depend on \<open>pressed_m\<close>: for every scheduler, clock and
  press time, any two values of \<open>pressed_m\<close> (\<open>None\<close> included) give the same list.
\<close>

theorem plan_cycle_ignores_pressed_m:
  "plan_cycle self clk now m = plan_cycle self clk now m' \<and>
   (\<forall>u \<in> set (units (state_fn self)).
      enabled u \<and> \<not> tram_off self (id_u u) \<longrightarrow>
      entry_of self (state_fn self) (case now of Some t \<Rightarrow> t | None \<Rightarrow> clk) u
        \<in> set (plan_cycle self clk now m))"
proof (intro conjI ballI impI)
  show "plan_cycle self clk now m = plan_cycle self clk now m'"
    by (simp add: plan_cycle_eq)
next
  fix u assume "u \<in> set (units (state_fn self))"
    and "enabled u \<and> \<not> tram_off self (id_u u)"
  then show "entry_of self (state_fn self) (case now of Some t \<Rightarrow> t | None \<Rightarrow> clk) u
        \<in> set (plan_cycle self clk now m)"
    by (simp add: entry_in_plan eligible_def)
qed

text \<open>With M1 pressed the plan is the plan of no press at all, and unit 2, bound to M2,
  is in it.\<close>

theorem plan_cycle_ignores_pressed_m_witness:
  "plan_cycle demo_sched 0 (Some 1000) (Some ''M1'') = plan_cycle demo_sched 0 (Some 1000) None \<and>
   unit2 \<in> set (units (state_fn demo_sched)) \<and> enabled unit2 \<and>
   \<not> tram_off demo_sched (id_u unit2) \<and> momentary unit2 = ''M2'' \<and>
   (2, 1500, Some 500, TimedInfo 5 100) \<in> set (plan_cycle demo_sched 0 (Some 1000) (Some ''M1''))"
  using plan_cycle_ignores_pressed_m [of demo_sched 0 "Some 1000" "Some ''M1''" None] demo_plan
  by (simp add: demo_defs)

section \<open>The delay estimator\<close>




section \<open>The press history\<close>

text \<open>
  Claim C8, as amended. After every recording of a press the history is the last 20
  entries of the old history extended by the new timestamp: it has at most 20 entries,
  only the oldest entries are evicted, and the new timestamp is its last entry. No entry
  is evicted for its age; the 15-second window is what the estimator keeps when it reads
  the history.
\<close>

theorem record_press_capped:
  "length (record_press pressHistory now) \<le> 20 \<and>
   (\<exists>evicted. pressHistory @ [now] = evicted @ record_press pressHistory now) \<and>
   last (record_press pressHistory now) = now \<and>
   (length pressHistory < 20 \<longrightarrow> record_press pressHistory now = pressHistory @ [now]) \<and>
   (20 \<le> length pressHistory \<longrightarrow>
      record_press pressHistory now = drop (length pressHistory - 19) pressHistory @ [now] \<and>
      length (record_press pressHistory now) = 20) \<and>
   (\<forall>p \<in> set (recent_presses (record_press pressHistory now) t). t - p < 15)"
proof (intro conjI impI ballI)
  show "length (record_press pressHistory now) \<le> 20"
    by (simp add: record_press_def)
  show "\<exists>evicted. pressHistory @ [now] = evicted @ record_press pressHistory now"
    unfolding record_press_def Let_def
    by (metis append_take_drop_id)
  show "last (record_press pressHistory now) = now"
    by (simp add: record_press_def)
  show "record_press pressHistory now = pressHistory @ [now]" if "length pressHistory < 20"
    using that by (simp add: record_press_def)
  show "record_press pressHistory now = drop (length pressHistory - 19) pressHistory @ [now]"
    if "20 \<le> length pressHistory"
    using that by (simp add: record_press_def)
  show "length (record_press pressHistory now) = 20" if "20 \<le> length pressHistory"
    using that by (simp add: record_press_def)
  show "t - p < 15" if "p \<in> set (recent_presses (record_press pressHistory now) t)" for p
    using that by (simp add: recent_presses_def)
qed

text \<open>A short history grows by the new press; a history of 20 entries loses its oldest;
  the estimator reading at 101 s keeps only the press at 100 s.\<close>

theorem record_press_capped_witness:
  "length [0::real] < 20 \<and> record_press [0] 100 = [0, 100] \<and>
   20 \<le> length (replicate 20 (0::real)) \<and>
   record_press (replicate 20 0) 1 = replicate 19 0 @ [1] \<and>
   recent_presses (record_press [0] 100) 101 = [100]"
  using record_press_capped [of "[0]" 100 101] record_press_capped [of "replicate 20 0" 1 101]
  by (simp add: recent_presses_def record_press_def)

text \<open>A press at 0 s is still in the history after a press at 100 s is recorded, 100
  seconds later.\<close>

theorem record_press_window_counterexample:
  "record_press [0] 100 = [0, 100] \<and> \<not> (100 - (0::real) < 15)"
  by (simp add: record_press_def)

section \<open>The timed drive\<close>

text \<open>
  Claim C7. However the awaited sleep of \<open>open_unit_for\<close> ends (the time elapses, the task
  is cancelled during the wait, or another exception is raised), a mapped unit's pin is
  set HIGH once and then LOW once, and is LOW at the end; the result or the exception
  is passed on. For an unmapped unit no output is touched.
\<close>

theorem open_unit_for_deasserts_once:
  "fst (open_unit_for self unit_id ms oc) = (case oc of Elapsed \<Rightarrow> Inr () | Raised e \<Rightarrow> Inl e) \<and>
   (mapping_units self unit_id = None \<longrightarrow> snd (open_unit_for self unit_id ms oc) = self) \<and>
   (\<forall>pin. mapping_units self unit_id = Some pin \<longrightarrow>
      output_calls (snd (open_unit_for self unit_id ms oc))
        = output_calls self @ [(pin, HIGH), (pin, LOW)] \<and>
      pin_level (snd (open_unit_for self unit_id ms oc)) pin = LOW)"
  by (cases oc)
     (auto simp: open_unit_for_def try_finally_def await_sleep_def RGPIO_output_def Let_def
           split: option.splits)

text \<open>Unit 1 on pin 12: the same two output calls on expiry, on cancellation and on
  another exception.\<close>

theorem open_unit_for_deasserts_once_witness:
  "mapping_units demo_gpio 1 = Some 12 \<and>
   output_calls (snd (open_unit_for demo_gpio 1 500 Elapsed)) = [(12, HIGH), (12, LOW)] \<and>
   output_calls (snd (open_unit_for demo_gpio 1 500 (Raised CancelledError))) = [(12, HIGH), (12, LOW)] \<and>
   output_calls (snd (open_unit_for demo_gpio 1 500 (Raised OtherException))) = [(12, HIGH), (12, LOW)] \<and>
   pin_level (snd (open_unit_for demo_gpio 1 500 (Raised CancelledError))) 12 = LOW \<and>
   fst (open_unit_for demo_gpio 1 500 (Raised CancelledError)) = Inl CancelledError \<and>
   mapping_units demo_gpio 2 = None \<and>
   snd (open_unit_for demo_gpio 2 500 Elapsed) = demo_gpio"
  using open_unit_for_deasserts_once [of demo_gpio 1 500 Elapsed]
        open_unit_for_deasserts_once [of demo_gpio 1 500 "Raised CancelledError"]
        open_unit_for_deasserts_once [of demo_gpio 1 500 "Raised OtherException"]
        open_unit_for_deasserts_once [of demo_gpio 2 500 Elapsed]
  by (simp add: demo_gpio_def)

end
